theory Spec2Isabelle
  imports Main "HOL-Library.Product_Lexorder" "HOL-Library.Multiset"
begin

section \<open>Python helpers used by the modelled code\<close>

text \<open>
  Strings are modelled as \<open>string\<close> over ASCII; \<open>str.lower\<close> maps the letters
  \<open>A\<close>..\<open>Z\<close> to \<open>a\<close>..\<open>z\<close> and leaves every other character alone.
\<close>

definition lower_char :: "char \<Rightarrow> char" where
  "lower_char c =
     (let n = (of_char c :: nat)
      in if 65 \<le> n \<and> n \<le> 90 then char_of (n + 32) else c)"

definition lower :: "string \<Rightarrow> string" where
  "lower s = map lower_char s"

text \<open>\<open>s.startswith(p)\<close>.\<close>

definition startswith :: "string \<Rightarrow> string \<Rightarrow> bool" where
  "startswith s p = (take (length p) s = p)"

text \<open>\<open>list.index(x)\<close>: the first position of \<open>x\<close>; \<open>None\<close> stands for ValueError.\<close>

fun list_index :: "'a list \<Rightarrow> 'a \<Rightarrow> nat option" where
  "list_index [] x = None"
| "list_index (y # ys) x = (if y = x then Some 0 else map_option Suc (list_index ys x))"

section \<open>arm5.datamodels.times\<close>

subsection \<open>Seasons\<close>

datatype Seasons = SPRING | SUMMER | AUTUMN | WINTER

text \<open>Iterating the class (\<open>for season in Seasons\<close>) visits the canonical members in
  declaration order; the alias \<open>FALL\<close> is not visited.\<close>

definition Seasons_iter :: "Seasons list" where
  "Seasons_iter = [SPRING, SUMMER, AUTUMN, WINTER]"

text \<open>\<open>Seasons.__members__\<close> keeps the alias name \<open>FALL\<close>, bound to \<open>AUTUMN\<close>.\<close>

definition Seasons_members :: "(string \<times> Seasons) list" where
  "Seasons_members =
     [(''SPRING'', SPRING), (''SUMMER'', SUMMER), (''AUTUMN'', AUTUMN),
      (''WINTER'', WINTER), (''FALL'', AUTUMN)]"

text \<open>\<open>_enumeration_order\<close>: \<open>list(type(self).__members__.values()).index(self)\<close>.
  The index always exists (lemma \<open>Seasons_index_defined\<close>), so the \<open>None\<close> branch is
  never taken.\<close>

definition enumeration_order :: "Seasons \<Rightarrow> nat" where
  "enumeration_order s =
     (case list_index (map snd Seasons_members) s of Some i \<Rightarrow> i | None \<Rightarrow> 0)"

definition Seasons_ge :: "Seasons \<Rightarrow> Seasons \<Rightarrow> bool" where
  "Seasons_ge a b = (enumeration_order a \<ge> enumeration_order b)"

definition Seasons_gt :: "Seasons \<Rightarrow> Seasons \<Rightarrow> bool" where
  "Seasons_gt a b = (enumeration_order a > enumeration_order b)"

definition Seasons_le :: "Seasons \<Rightarrow> Seasons \<Rightarrow> bool" where
  "Seasons_le a b = (enumeration_order a \<le> enumeration_order b)"

definition Seasons_lt :: "Seasons \<Rightarrow> Seasons \<Rightarrow> bool" where
  "Seasons_lt a b = (enumeration_order a < enumeration_order b)"

subsection \<open>YearSeason\<close>

text \<open>\<open>Year\<close> is pydantic's \<open>PositiveInt\<close>; the model keeps Python's unbounded \<open>int\<close>.\<close>

record YearSeason =
  year :: int
  season :: Seasons

text \<open>\<open>__lt__\<close>, as written in the class.\<close>

definition YearSeason_lt :: "YearSeason \<Rightarrow> YearSeason \<Rightarrow> bool" where
  "YearSeason_lt self other =
     (year self < year other \<or> (year self = year other \<and> Seasons_lt (season self) (season other)))"

text \<open>\<open>__eq__\<close> is the field-wise equality of the pydantic model, which is the equality of
  the record. \<open>functools.total_ordering\<close> derives the other three operators from
  \<open>__lt__\<close> and \<open>__eq__\<close>.\<close>

definition YearSeason_gt :: "YearSeason \<Rightarrow> YearSeason \<Rightarrow> bool" where
  "YearSeason_gt self other = (\<not> YearSeason_lt self other \<and> self \<noteq> other)"

definition YearSeason_le :: "YearSeason \<Rightarrow> YearSeason \<Rightarrow> bool" where
  "YearSeason_le self other = (YearSeason_lt self other \<or> self = other)"

definition YearSeason_ge :: "YearSeason \<Rightarrow> YearSeason \<Rightarrow> bool" where
  "YearSeason_ge self other = (\<not> YearSeason_lt self other)"

text \<open>\<open>iter_between\<close>: the generator's output as a list. \<open>range(a, b)\<close> is \<open>[a..b - 1]\<close>.\<close>

definition iter_between :: "YearSeason \<Rightarrow> YearSeason \<Rightarrow> YearSeason list" where
  "iter_between start end =
     (if YearSeason_lt end start then []
      else
        map (\<lambda>s. \<lparr>year = year start, season = s\<rparr>)
            (filter (\<lambda>s. Seasons_ge s (season start)) Seasons_iter)
        @ concat (map (\<lambda>y. map (\<lambda>s. \<lparr>year = y, season = s\<rparr>) Seasons_iter)
                      [year start + 1 .. year end - 1])
        @ map (\<lambda>s. \<lparr>year = year end, season = s\<rparr>)
              (filter (\<lambda>s. Seasons_le s (season end)) Seasons_iter))"

definition start_of_year :: "int \<Rightarrow> YearSeason" where
  "start_of_year y = \<lparr>year = y, season = SPRING\<rparr>"

definition end_of_year :: "int \<Rightarrow> YearSeason" where
  "end_of_year y = \<lparr>year = y, season = WINTER\<rparr>"

text \<open>The sort key the ordering is compared with: year first, then declaration rank.\<close>

definition YearSeason_key :: "YearSeason \<Rightarrow> int \<times> nat" where
  "YearSeason_key p = (year p, enumeration_order (season p))"

text \<open>Python's \<open>sorted\<close> is a stable sort that compares with \<open>__lt__\<close> only; it is
  modelled by stable insertion with that one operator.\<close>

fun insert_lt :: "YearSeason \<Rightarrow> YearSeason list \<Rightarrow> YearSeason list" where
  "insert_lt x [] = [x]"
| "insert_lt x (y # ys) = (if YearSeason_lt y x then y # insert_lt x ys else x # y # ys)"

definition sorted_py :: "YearSeason list \<Rightarrow> YearSeason list" where
  "sorted_py xs = foldr insert_lt xs []"

subsection \<open>Constructing an enumeration member from a value\<close>

datatype enum_error = ValueError_not_valid string string

text \<open>\<open>Cls(value)\<close> of \<open>enum.Enum\<close>: the member whose value is \<open>value\<close>; failing that,
  what the \<open>_missing_\<close> hook returns; when the hook returns \<open>None\<close>,
  \<open>ValueError("'value' is not a valid Cls")\<close>.\<close>

definition Enum_call ::
  "string \<Rightarrow> 'm list \<Rightarrow> ('m \<Rightarrow> string) \<Rightarrow> (string \<Rightarrow> 'm option) \<Rightarrow> string \<Rightarrow> enum_error + 'm"
where
  "Enum_call cls_name members value_of missing v =
     (case find (\<lambda>m. value_of m = v) members of
        Some m \<Rightarrow> Inr m
      | None \<Rightarrow>
          (case missing v of
             Some m \<Rightarrow> Inr m
           | None \<Rightarrow> Inl (ValueError_not_valid v cls_name)))"

text \<open>\<open>Seasons.__new__\<close> stores the first item as the value and the second as the aliases.\<close>

fun Seasons_value :: "Seasons \<Rightarrow> string" where
  "Seasons_value SPRING = ''spring''"
| "Seasons_value SUMMER = ''summer''"
| "Seasons_value AUTUMN = ''autumn''"
| "Seasons_value WINTER = ''winter''"

fun Seasons_aliases :: "Seasons \<Rightarrow> string list" where
  "Seasons_aliases SPRING = []"
| "Seasons_aliases SUMMER = []"
| "Seasons_aliases AUTUMN = [''fall'']"
| "Seasons_aliases WINTER = []"

text \<open>\<open>Seasons._missing_\<close>: the first member that lists the string, as it is, among its
  aliases; the inherited hook returns \<open>None\<close>.\<close>

definition Seasons_missing :: "string \<Rightarrow> Seasons option" where
  "Seasons_missing v = find (\<lambda>member. v \<in> set (Seasons_aliases member)) Seasons_iter"

definition Seasons_call :: "string \<Rightarrow> enum_error + Seasons" where
  "Seasons_call v = Enum_call ''Seasons'' Seasons_iter Seasons_value Seasons_missing v"

section \<open>arm5.datamodels.arts\<close>

text \<open>\<open>ArtEnumBase.__new__(cls, value, *aliases)\<close> lower-cases the value and every alias.\<close>

definition ArtEnumBase_new :: "string \<times> string list \<Rightarrow> string \<times> string list" where
  "ArtEnumBase_new decl = (lower (fst decl), map lower (snd decl))"

text \<open>\<open>ArtEnumBase._missing_\<close>: lower-case the string, then the first member whose value is
  the string or whose aliases hold it; the inherited hook returns \<open>None\<close>.\<close>

definition ArtEnumBase_missing ::
  "'m list \<Rightarrow> ('m \<Rightarrow> string \<times> string list) \<Rightarrow> string \<Rightarrow> 'm option"
where
  "ArtEnumBase_missing members attrs v =
     (let value = lower v
      in find (\<lambda>member. fst (attrs member) = value \<or> value \<in> set (snd (attrs member))) members)"

datatype HermeticTechniques = CREO | INTELLEGO | MUTO | PERDO | REGO

definition HermeticTechniques_iter :: "HermeticTechniques list" where
  "HermeticTechniques_iter = [CREO, INTELLEGO, MUTO, PERDO, REGO]"

fun HermeticTechniques_decl :: "HermeticTechniques \<Rightarrow> string \<times> string list" where
  "HermeticTechniques_decl CREO = (''creo'', [''cr''])"
| "HermeticTechniques_decl INTELLEGO = (''intellego'', [''in''])"
| "HermeticTechniques_decl MUTO = (''muto'', [''mu''])"
| "HermeticTechniques_decl PERDO = (''perdo'', [''pe''])"
| "HermeticTechniques_decl REGO = (''rego'', [''re''])"

definition HermeticTechniques_attrs :: "HermeticTechniques \<Rightarrow> string \<times> string list" where
  "HermeticTechniques_attrs m = ArtEnumBase_new (HermeticTechniques_decl m)"

definition HermeticTechniques_call :: "string \<Rightarrow> enum_error + HermeticTechniques" where
  "HermeticTechniques_call v =
     Enum_call ''HermeticTechniques'' HermeticTechniques_iter (\<lambda>m. fst (HermeticTechniques_attrs m))
       (ArtEnumBase_missing HermeticTechniques_iter HermeticTechniques_attrs) v"

datatype HermeticForms =
  ANIMAL | AQUAM | AURAM | CORPUS | HERBAM | IGNEM | IMAGINEM | MENTEM | TERRAM | VIM

definition HermeticForms_iter :: "HermeticForms list" where
  "HermeticForms_iter =
     [ANIMAL, AQUAM, AURAM, CORPUS, HERBAM, IGNEM, IMAGINEM, MENTEM, TERRAM, VIM]"

fun HermeticForms_decl :: "HermeticForms \<Rightarrow> string \<times> string list" where
  "HermeticForms_decl ANIMAL = (''animal'', [''an''])"
| "HermeticForms_decl AQUAM = (''aquam'', [''aq''])"
| "HermeticForms_decl AURAM = (''auram'', [''au''])"
| "HermeticForms_decl CORPUS = (''corpus'', [''co''])"
| "HermeticForms_decl HERBAM = (''herbam'', [''he''])"
| "HermeticForms_decl IGNEM = (''ignem'', [''ig''])"
| "HermeticForms_decl IMAGINEM = (''imaginem'', [''im''])"
| "HermeticForms_decl MENTEM = (''mentem'', [''me''])"
| "HermeticForms_decl TERRAM = (''terram'', [''te''])"
| "HermeticForms_decl VIM = (''vim'', [''vi''])"

definition HermeticForms_attrs :: "HermeticForms \<Rightarrow> string \<times> string list" where
  "HermeticForms_attrs m = ArtEnumBase_new (HermeticForms_decl m)"

definition HermeticForms_call :: "string \<Rightarrow> enum_error + HermeticForms" where
  "HermeticForms_call v =
     Enum_call ''HermeticForms'' HermeticForms_iter (\<lambda>m. fst (HermeticForms_attrs m))
       (ArtEnumBase_missing HermeticForms_iter HermeticForms_attrs) v"

section \<open>pyarm5.bases and pyarm5.datamodels.arts\<close>

text \<open>The two \<open>ValueError\<close>s of \<open>StrFlag._missing_\<close>, with what their messages hold: the
  class name, the lower-cased string and the set of members listed.\<close>

datatype 'm flag_error =
  ValueError_invalid string string "'m set"
| ValueError_ambiguous string string "'m set"

text \<open>\<open>StrFlag._missing_\<close> on a string. \<open>matches\<close> is a Python set; it is kept as a
  duplicate-free list, and \<open>match len(matches)\<close> becomes the case distinction on it.\<close>

definition StrFlag_missing ::
  "string \<Rightarrow> 'm list \<Rightarrow> ('m \<Rightarrow> string) \<Rightarrow> string \<Rightarrow> 'm flag_error + 'm"
where
  "StrFlag_missing cls_name members name_of v =
     (let value = lower v;
          matches = remdups (filter (\<lambda>member. startswith (lower (name_of member)) value) members)
      in case matches of
           [] \<Rightarrow> Inl (ValueError_invalid cls_name value (set members))
         | [m] \<Rightarrow> Inr m
         | _ \<Rightarrow> Inl (ValueError_ambiguous cls_name value (set matches)))"

text \<open>The members of the two flag classes carry the suffix \<open>_flag\<close>, the names without it
  being those of the classes of \<open>arm5.datamodels.arts\<close>.\<close>

datatype HermeticTechnique = CREO_flag | INTELLEGO_flag | MUTO_flag | PERDO_flag | REGO_flag

definition HermeticTechnique_iter :: "HermeticTechnique list" where
  "HermeticTechnique_iter = [CREO_flag, INTELLEGO_flag, MUTO_flag, PERDO_flag, REGO_flag]"

fun HermeticTechnique_name :: "HermeticTechnique \<Rightarrow> string" where
  "HermeticTechnique_name CREO_flag = ''CREO''"
| "HermeticTechnique_name INTELLEGO_flag = ''INTELLEGO''"
| "HermeticTechnique_name MUTO_flag = ''MUTO''"
| "HermeticTechnique_name PERDO_flag = ''PERDO''"
| "HermeticTechnique_name REGO_flag = ''REGO''"

text \<open>The values of a flag class are integers, so the value lookup of \<open>Cls(string)\<close> never
  finds a string and the call is decided by \<open>_missing_\<close>.\<close>

definition HermeticTechnique_call :: "string \<Rightarrow> HermeticTechnique flag_error + HermeticTechnique" where
  "HermeticTechnique_call v =
     StrFlag_missing ''HermeticTechnique'' HermeticTechnique_iter HermeticTechnique_name v"

datatype HermeticForm =
  ANIMAL_flag | AQUAM_flag | AURAM_flag | CORPUS_flag | HERBAM_flag
| IGNEM_flag | IMAGINEM_flag | MENTEM_flag | TERRAM_flag | VIM_flag

definition HermeticForm_iter :: "HermeticForm list" where
  "HermeticForm_iter =
     [ANIMAL_flag, AQUAM_flag, AURAM_flag, CORPUS_flag, HERBAM_flag,
      IGNEM_flag, IMAGINEM_flag, MENTEM_flag, TERRAM_flag, VIM_flag]"

fun HermeticForm_name :: "HermeticForm \<Rightarrow> string" where
  "HermeticForm_name ANIMAL_flag = ''ANIMAL''"
| "HermeticForm_name AQUAM_flag = ''AQUAM''"
| "HermeticForm_name AURAM_flag = ''AURAM''"
| "HermeticForm_name CORPUS_flag = ''CORPUS''"
| "HermeticForm_name HERBAM_flag = ''HERBAM''"
| "HermeticForm_name IGNEM_flag = ''IGNEM''"
| "HermeticForm_name IMAGINEM_flag = ''IMAGINEM''"
| "HermeticForm_name MENTEM_flag = ''MENTEM''"
| "HermeticForm_name TERRAM_flag = ''TERRAM''"
| "HermeticForm_name VIM_flag = ''VIM''"

definition HermeticForm_call :: "string \<Rightarrow> HermeticForm flag_error + HermeticForm" where
  "HermeticForm_call v = StrFlag_missing ''HermeticForm'' HermeticForm_iter HermeticForm_name v"

section \<open>arm5.io.hashio\<close>

subsection \<open>Paths, files and the Python library the module calls\<close>

type_synonym bytes = string

text \<open>A \<open>pathlib\<close> path is the list of its components; its \<open>name\<close> is the last one, and
  the empty string when there is none.\<close>

type_synonym path = "string list"

definition path_name :: "path \<Rightarrow> string" where
  "path_name p = (if p = [] then [] else last p)"

text \<open>\<open>str.rfind(c)\<close>: the last position of \<open>c\<close>, or \<open>-1\<close>.\<close>

definition rfind :: "string \<Rightarrow> char \<Rightarrow> int" where
  "rfind s c =
     (case list_index (rev s) c of
        None \<Rightarrow> - 1
      | Some j \<Rightarrow> int (length s) - 1 - int j)"

text \<open>\<open>PurePath.suffix\<close>: from the last dot of the name on, unless that dot is the first
  or the last character of the name.\<close>

definition path_suffix :: "path \<Rightarrow> string" where
  "path_suffix p =
     (let name = path_name p; i = rfind name (CHR ''.'')
      in if 0 < i \<and> i < int (length name) - 1 then drop (nat i) name else [])"

datatype io_error =
  ValueError_unsupported_hash string
| ValueError_invalid_suffix string
| ValueError_empty_name path
| ValueError_invalid_mode string
| FileNotFoundError path
| FileExistsError path
| UnsupportedOperation
| OSError_modified path bytes bytes
| AssertionError

text \<open>\<open>PurePath.with_suffix(suffix)\<close>.\<close>

definition with_suffix :: "path \<Rightarrow> string \<Rightarrow> io_error + path" where
  "with_suffix p suffix =
     (if CHR ''/'' \<in> set suffix then Inl (ValueError_invalid_suffix suffix)
      else if (suffix \<noteq> [] \<and> \<not> startswith suffix ''.'') \<or> suffix = ''.''
        then Inl (ValueError_invalid_suffix suffix)
      else
        let name = path_name p
        in if name = [] then Inl (ValueError_empty_name p)
           else
             let old_suffix = path_suffix p;
                 name' = (if old_suffix = [] then name @ suffix
                          else take (length name - length old_suffix) name @ suffix)
             in Inr (butlast p @ [name']))"

text \<open>What the file system does is recorded in order, next to the files themselves.\<close>

datatype event =
  Ev_open path string
| Ev_close path
| Ev_read_bytes path
| Ev_write_bytes path bytes
| Ev_unlink path
| Ev_warn path bytes bytes

record world =
  files :: "path \<rightharpoonup> bytes"
  log :: "event list"

definition emit :: "event \<Rightarrow> world \<Rightarrow> world" where
  "emit e w = w\<lparr>log := log w @ [e]\<rparr>"

definition is_file :: "world \<Rightarrow> path \<Rightarrow> bool" where
  "is_file w p = (files w p \<noteq> None)"

text \<open>\<open>hashlib\<close> is not part of the repository: the digest algorithms are a parameter, the
  names \<open>hashlib.new\<close> accepts and the digest each computes of a file's content.\<close>

record hashlib =
  known :: "string \<Rightarrow> bool"
  file_digest :: "string \<Rightarrow> bytes \<Rightarrow> bytes"

text \<open>An open file object: the path and mode it was opened with and its position.\<close>

record file_obj =
  f_path :: path
  f_mode :: string
  f_pos :: nat

text \<open>The mode check of \<open>builtins.open\<close>: characters of \<open>axrwb+t\<close> only, none twice, not
  both text and binary, and exactly one of create, read, write, append.\<close>

definition valid_mode :: "string \<Rightarrow> bool" where
  "valid_mode mode =
     (set mode \<subseteq> set ''axrwb+t'' \<and> distinct mode
      \<and> \<not> (CHR ''t'' \<in> set mode \<and> CHR ''b'' \<in> set mode)
      \<and> length (filter (\<lambda>c. c \<in> set ''xrwa'') mode) = 1)"

text \<open>\<open>builtins.open(file, mode)\<close> on regular files: reading needs the file, writing
  truncates or creates it, appending creates it when missing and starts at its end,
  exclusive creation fails on an existing file.\<close>

definition builtins_open :: "world \<Rightarrow> path \<Rightarrow> string \<Rightarrow> (io_error + file_obj) \<times> world" where
  "builtins_open w p mode =
     (if \<not> valid_mode mode then (Inl (ValueError_invalid_mode mode), w)
      else if CHR ''r'' \<in> set mode then
        (if is_file w p
         then (Inr \<lparr>f_path = p, f_mode = mode, f_pos = 0\<rparr>, emit (Ev_open p mode) w)
         else (Inl (FileNotFoundError p), w))
      else if CHR ''w'' \<in> set mode then
        (Inr \<lparr>f_path = p, f_mode = mode, f_pos = 0\<rparr>,
         emit (Ev_open p mode) (w\<lparr>files := (files w)(p \<mapsto> [])\<rparr>))
      else if CHR ''a'' \<in> set mode then
        (case files w p of
           Some content \<Rightarrow>
             (Inr \<lparr>f_path = p, f_mode = mode, f_pos = length content\<rparr>, emit (Ev_open p mode) w)
         | None \<Rightarrow>
             (Inr \<lparr>f_path = p, f_mode = mode, f_pos = 0\<rparr>,
              emit (Ev_open p mode) (w\<lparr>files := (files w)(p \<mapsto> [])\<rparr>)))
      else
        (if is_file w p then (Inl (FileExistsError p), w)
         else (Inr \<lparr>f_path = p, f_mode = mode, f_pos = 0\<rparr>,
               emit (Ev_open p mode) (w\<lparr>files := (files w)(p \<mapsto> [])\<rparr>))))"

text \<open>\<open>file.write(data)\<close>, unbuffered: a file opened for reading only refuses; in append
  mode the data goes to the end of the file, otherwise to the position of the file
  object, over what is there. A file removed while it is open is not modelled and answers
  \<open>FileNotFoundError\<close>.\<close>

definition file_write :: "world \<Rightarrow> file_obj \<Rightarrow> bytes \<Rightarrow> (io_error + file_obj) \<times> world" where
  "file_write w f data =
     (if CHR ''r'' \<in> set (f_mode f) \<and> CHR ''+'' \<notin> set (f_mode f) then (Inl UnsupportedOperation, w)
      else
        case files w (f_path f) of
          None \<Rightarrow> (Inl (FileNotFoundError (f_path f)), w)
        | Some content \<Rightarrow>
            let pos = (if CHR ''a'' \<in> set (f_mode f) then length content else f_pos f);
                content' = take pos content @ replicate (pos - length content) (CHR 0x00)
                           @ data @ drop (pos + length data) content
            in (Inr (f\<lparr>f_pos := pos + length data\<rparr>),
                w\<lparr>files := (files w)(f_path f \<mapsto> content')\<rparr>))"

text \<open>\<open>file.__exit__\<close> closes the file.\<close>

definition file_exit :: "world \<Rightarrow> file_obj \<Rightarrow> world" where
  "file_exit w f = emit (Ev_close (f_path f)) w"

subsection \<open>The module\<close>

text \<open>\<open>path_digest\<close>: open the path with mode \<open>rb\<close>, digest the content, close.
  \<open>hashlib.file_digest\<close> refuses a name it does not know.\<close>

definition path_digest :: "hashlib \<Rightarrow> world \<Rightarrow> path \<Rightarrow> string \<Rightarrow> (io_error + bytes) \<times> world" where
  "path_digest H w p digest =
     (case builtins_open w p ''rb'' of
        (Inl e, w') \<Rightarrow> (Inl e, w')
      | (Inr fp, w') \<Rightarrow>
          (if known H digest
           then (case files w' p of
                   Some content \<Rightarrow> (Inr (file_digest H digest content), file_exit w' fp)
                 | None \<Rightarrow> (Inl (FileNotFoundError p), file_exit w' fp))
           else (Inl (ValueError_unsupported_hash digest), file_exit w' fp)))"

datatype on_error = Raise | Warn | Ignore

text \<open>\<open>validate_path\<close>. Its last branch is \<open>typing.assert_never\<close>.\<close>

definition validate_path ::
  "hashlib \<Rightarrow> world \<Rightarrow> path \<Rightarrow> string \<Rightarrow> bytes \<Rightarrow> on_error \<Rightarrow> (io_error + unit) \<times> world"
where
  "validate_path H w p digest expected policy =
     (case path_digest H w p digest of
        (Inl e, w') \<Rightarrow> (Inl e, w')
      | (Inr actual, w') \<Rightarrow>
          (if expected \<noteq> actual then
             (case policy of
                Raise \<Rightarrow> (Inl (OSError_modified p expected actual), w')
              | Warn \<Rightarrow> (Inr (), emit (Ev_warn p expected actual) w')
              | Ignore \<Rightarrow> (Inl AssertionError, w'))
           else (Inr (), w')))"

text \<open>\<open>_HashFileWrapper\<close>.\<close>

record HashFileWrapper =
  wr_file :: file_obj
  wr_path :: "path option"
  wr_hash_path :: "path option"
  wr_hash_name :: string

definition HashFileWrapper_enter :: "HashFileWrapper \<Rightarrow> file_obj" where
  "HashFileWrapper_enter self = wr_file self"

definition HashFileWrapper_exit :: "hashlib \<Rightarrow> world \<Rightarrow> HashFileWrapper \<Rightarrow> (io_error + unit) \<times> world" where
  "HashFileWrapper_exit H w self =
     (let w1 = file_exit w (wr_file self)
      in case (wr_path self, wr_hash_path self) of
           (Some p, Some hp) \<Rightarrow>
             (case path_digest H w1 p (wr_hash_name self) of
                (Inl e, w2) \<Rightarrow> (Inl e, w2)
              | (Inr d, w2) \<Rightarrow>
                  (Inr (), emit (Ev_write_bytes hp d) (w2\<lparr>files := (files w2)(hp \<mapsto> d)\<rparr>)))
         | _ \<Rightarrow> (Inr (), w1))"

text \<open>The keyword arguments of \<open>wrap_open\<close>, which the closure \<open>hash_open\<close> keeps.\<close>

record wrap_config =
  hash_on_write :: bool
  on_error_policy :: on_error
  hash_name :: string

definition default_config :: wrap_config where
  "default_config = \<lparr>hash_on_write = True, on_error_policy = Raise, hash_name = ''sha256''\<rparr>"

text \<open>The two lines of \<open>hash_open\<close> that compute the path of the hash file.\<close>

definition hash_path_of :: "path \<Rightarrow> string \<Rightarrow> io_error + path" where
  "hash_path_of p name =
     (let hash_suffix = (if path_suffix p \<noteq> [] then ''.'' @ path_suffix p @ ''.'' @ name
                         else ''.'' @ name)
      in with_suffix p hash_suffix)"

text \<open>\<open>any(m in mode for m in "wa")\<close>.\<close>

definition mode_wa :: "string \<Rightarrow> bool" where
  "mode_wa mode = (CHR ''w'' \<in> set mode \<or> CHR ''a'' \<in> set mode)"

text \<open>\<open>hash_open(file, mode)\<close>.\<close>

definition hash_open ::
  "wrap_config \<Rightarrow> hashlib \<Rightarrow> world \<Rightarrow> path \<Rightarrow> string \<Rightarrow> (io_error + HashFileWrapper) \<times> world"
where
  "hash_open cfg H w p mode =
     (if \<not> known H (hash_name cfg) then (Inl (ValueError_unsupported_hash (hash_name cfg)), w)
      else
        case hash_path_of p (hash_name cfg) of
          Inl e \<Rightarrow> (Inl e, w)
        | Inr hash_path \<Rightarrow>
            (case (if on_error_policy cfg \<noteq> Ignore \<and> is_file w p \<and> is_file w hash_path
                   then (case files w hash_path of
                           Some expected \<Rightarrow>
                             validate_path H (emit (Ev_read_bytes hash_path) w) p (hash_name cfg)
                               expected (on_error_policy cfg)
                         | None \<Rightarrow> (Inl (FileNotFoundError hash_path), w))
                   else (Inr (), w)) of
               (Inl e, w1) \<Rightarrow> (Inl e, w1)
             | (Inr _, w1) \<Rightarrow>
                 let w2 = (if mode_wa mode \<and> is_file w1 hash_path
                           then emit (Ev_unlink hash_path) (w1\<lparr>files := (files w1)(hash_path := None)\<rparr>)
                           else w1)
                 in case builtins_open w2 p mode of
                      (Inl e, w3) \<Rightarrow> (Inl e, w3)
                    | (Inr file, w3) \<Rightarrow>
                        (if mode_wa mode \<and> hash_on_write cfg
                         then (Inr \<lparr>wr_file = file, wr_path = Some p, wr_hash_path = Some hash_path,
                                    wr_hash_name = hash_name cfg\<rparr>, w3)
                         else (Inr \<lparr>wr_file = file, wr_path = None, wr_hash_path = None,
                                    wr_hash_name = ''sha256''\<rparr>, w3))))"

text \<open>The \<open>with\<close> statement of \<open>test_open\<close>: open through the wrapper, write the data to
  the file object, leave the block. \<open>__exit__\<close> runs on every way out of the block.\<close>

definition with_hash_open_write ::
  "wrap_config \<Rightarrow> hashlib \<Rightarrow> world \<Rightarrow> path \<Rightarrow> string \<Rightarrow> bytes \<Rightarrow> (io_error + unit) \<times> world"
where
  "with_hash_open_write cfg H w p mode data =
     (case hash_open cfg H w p mode of
        (Inl e, w1) \<Rightarrow> (Inl e, w1)
      | (Inr wrapper, w1) \<Rightarrow>
          (case file_write w1 (HashFileWrapper_enter wrapper) data of
             (Inl e, w2) \<Rightarrow>
               (case HashFileWrapper_exit H w2 wrapper of
                  (Inl e', w3) \<Rightarrow> (Inl e', w3)
                | (Inr _, w3) \<Rightarrow> (Inl e, w3))
           | (Inr _, w2) \<Rightarrow> HashFileWrapper_exit H w2 wrapper))"

text \<open>A stand-in for \<open>hashlib\<close> at concrete inputs: it knows \<open>sha256\<close> only and its
  digest is the content reversed.\<close>

definition example_hashlib :: hashlib where
  "example_hashlib = \<lparr>known = (\<lambda>name. name = ''sha256''), file_digest = (\<lambda>name content. rev content)\<rparr>"

section \<open>Properties of the season order\<close>

lemma enumeration_order_simps:
  "enumeration_order SPRING = 0" "enumeration_order SUMMER = 1"
  "enumeration_order AUTUMN = 2" "enumeration_order WINTER = 3"
  by (simp_all add: enumeration_order_def Seasons_members_def)

lemma Seasons_index_defined: "list_index (map snd Seasons_members) s \<noteq> None"
  by (cases s) (simp_all add: Seasons_members_def)

lemma enumeration_order_inj: "enumeration_order a = enumeration_order b \<longleftrightarrow> a = b"
  by (cases a; cases b) (simp_all add: enumeration_order_simps)

lemma YearSeason_lt_key: "YearSeason_lt a b \<longleftrightarrow> YearSeason_key a < YearSeason_key b"
  by (auto simp: YearSeason_lt_def YearSeason_key_def Seasons_lt_def less_prod_def)

lemma YearSeason_key_inj: "YearSeason_key a = YearSeason_key b \<longleftrightarrow> a = b"
  by (cases a; cases b) (simp add: YearSeason_key_def enumeration_order_inj)

lemma YearSeason_le_key: "YearSeason_le a b \<longleftrightarrow> YearSeason_key a \<le> YearSeason_key b"
  by (auto simp: YearSeason_le_def YearSeason_lt_key YearSeason_key_inj [symmetric] order_le_less)

lemma YearSeason_gt_key: "YearSeason_gt a b \<longleftrightarrow> YearSeason_key b < YearSeason_key a"
  by (auto simp: YearSeason_gt_def YearSeason_lt_key YearSeason_key_inj [symmetric])

lemma insert_lt_insort: "insert_lt x ys = insort_key YearSeason_key x ys"
  by (induction ys) (auto simp: YearSeason_lt_key not_less)

lemma sorted_py_sort_key: "sorted_py xs = sort_key YearSeason_key xs"
  by (induction xs) (simp_all add: sorted_py_def insert_lt_insort sort_key_def)

lemma sorted_py_sorted: "sorted_wrt YearSeason_le (sorted_py xs)"
proof -
  have "sorted (map YearSeason_key (sort_key YearSeason_key xs))"
    by (rule sorted_sort_key)
  then have "sorted_wrt (\<lambda>a b. YearSeason_key a \<le> YearSeason_key b) (sort_key YearSeason_key xs)"
    by (simp add: sorted_wrt_map)
  then show ?thesis
    by (simp add: sorted_py_sort_key YearSeason_le_key [abs_def])
qed

section \<open>The order of periods\<close>

text \<open>
  C9. For any two \<open>YearSeason\<close> values exactly one of \<open>a < b\<close>, \<open>a == b\<close>, \<open>a > b\<close> holds
  (of the three truth values exactly one is true), and \<open>a > b\<close> is \<open>b < a\<close>. The order is
  the lexicographic order of the pairs (year, declaration rank of the season). Two values
  are equal iff year and season agree. Sorting a list with \<open>__lt__\<close> gives the list
  sorted by that key: ascending, and with the same elements as the input.
\<close>

theorem YearSeason_total_order:
  "length (filter (\<lambda>holds. holds) [YearSeason_lt a b, a = b, YearSeason_gt a b]) = 1
   \<and> (YearSeason_gt a b \<longleftrightarrow> YearSeason_lt b a)
   \<and> (YearSeason_lt a b \<longleftrightarrow> YearSeason_key a < YearSeason_key b)
   \<and> (a = b \<longleftrightarrow> year a = year b \<and> season a = season b)
   \<and> sorted_py xs = sort_key YearSeason_key xs
   \<and> sorted_wrt YearSeason_le (sorted_py xs)
   \<and> mset (sorted_py xs) = mset xs"
proof -
  have tri: "length (filter (\<lambda>holds. holds) [YearSeason_lt a b, a = b, YearSeason_gt a b]) = 1"
    using YearSeason_key_inj [of a b]
    by (auto simp: YearSeason_lt_key YearSeason_gt_key)
  have eq: "a = b \<longleftrightarrow> year a = year b \<and> season a = season b"
    by (cases a; cases b) simp
  have perm: "mset (sorted_py xs) = mset xs"
    by (simp add: sorted_py_sort_key)
  show ?thesis
    using tri eq perm
    by (simp add: YearSeason_gt_key YearSeason_lt_key sorted_py_sort_key [symmetric] sorted_py_sorted)
qed

section \<open>Enumerating the periods between two bounds\<close>

text \<open>
  C8. From (2, autumn) to (4, summer) \<open>iter_between\<close> yields, in this order, (2, autumn),
  (2, winter), then the four seasons of year 3, then (4, spring), (4, summer): eight
  periods.
\<close>

theorem iter_between_test_scenario:
  "iter_between \<lparr>year = 2, season = AUTUMN\<rparr> \<lparr>year = 4, season = SUMMER\<rparr> =
     [\<lparr>year = 2, season = AUTUMN\<rparr>, \<lparr>year = 2, season = WINTER\<rparr>,
      \<lparr>year = 3, season = SPRING\<rparr>, \<lparr>year = 3, season = SUMMER\<rparr>,
      \<lparr>year = 3, season = AUTUMN\<rparr>, \<lparr>year = 3, season = WINTER\<rparr>,
      \<lparr>year = 4, season = SPRING\<rparr>, \<lparr>year = 4, season = SUMMER\<rparr>]
   \<and> length (iter_between \<lparr>year = 2, season = AUTUMN\<rparr> \<lparr>year = 4, season = SUMMER\<rparr>) = 8"
  by (simp add: iter_between_def YearSeason_lt_def Seasons_lt_def Seasons_ge_def Seasons_le_def
      Seasons_iter_def enumeration_order_simps upto.simps)

text \<open>
  C1. The claim is that \<open>iter_between start end\<close> is the ascending, duplicate-free list of
  the periods from \<open>start\<close> to \<open>end\<close>, with one element when the bounds are equal. With
  both bounds (1, spring) the function yields five periods: the four seasons of year 1
  from the first loop, and (1, spring) once more from the last loop.
\<close>

theorem iter_between_same_period:
  "iter_between \<lparr>year = 1, season = SPRING\<rparr> \<lparr>year = 1, season = SPRING\<rparr> =
     [\<lparr>year = 1, season = SPRING\<rparr>, \<lparr>year = 1, season = SUMMER\<rparr>,
      \<lparr>year = 1, season = AUTUMN\<rparr>, \<lparr>year = 1, season = WINTER\<rparr>,
      \<lparr>year = 1, season = SPRING\<rparr>]"
  by (simp add: iter_between_def YearSeason_lt_def Seasons_lt_def Seasons_ge_def Seasons_le_def
      Seasons_iter_def enumeration_order_simps upto.simps)

end
